theory Spec2Isabelle
  imports Main "HOL-Library.Multiset" "HOL-Library.Sublist"
begin

chapter \<open>The embedding\<close>

section \<open>CancellationToken (packages/orleans/src/lib/utils.ts)\<close>

text \<open>
  The token holds a flag and the array of registered callbacks. A callback is a
  closure of type \<open>() => void\<close>; here it is a label together with whether the
  closure throws when it is called. \<open>Array.prototype.forEach\<close> stops at
  the first callback that throws and the exception leaves \<open>cancel\<close>. A
  callback is taken not to call the token it is registered with.
\<close>

datatype 'l callback = Callback (label: 'l) (throws: bool)

record 'l CancellationToken =
  isCanceled :: bool
  onCancelCallbacks :: "'l callback list"

definition newCancellationToken :: "'l CancellationToken" where
  "newCancellationToken = \<lparr>isCanceled = False, onCancelCallbacks = []\<rparr>"

text \<open>\<open>callbacks.forEach((callback) => callback())\<close>: the labels of the callbacks
  that were called, in order, and whether an exception escaped.\<close>

fun forEach_call :: "'l callback list \<Rightarrow> 'l list \<times> bool" where
  "forEach_call [] = ([], False)"
| "forEach_call (c # cs) =
     (if throws c then ([label c], True)
      else (case forEach_call cs of (ls, r) \<Rightarrow> (label c # ls, r)))"

definition cancel :: "'l CancellationToken \<Rightarrow> 'l CancellationToken \<times> 'l list \<times> bool" where
  "cancel t = (let t' = t\<lparr>isCanceled := True\<rparr> in (t', forEach_call (onCancelCallbacks t')))"

definition isCancellationRequested :: "'l CancellationToken \<Rightarrow> bool" where
  "isCancellationRequested t = isCanceled t"

definition register :: "'l CancellationToken \<Rightarrow> 'l callback \<Rightarrow> 'l CancellationToken" where
  "register t cb = t\<lparr>onCancelCallbacks := onCancelCallbacks t @ [cb]\<rparr>"

text \<open>A history of calls made on one token by its users, and the labels of all the
  callbacks invoked along the way.\<close>

datatype 'l token_call = Cancel | Register "'l callback"

fun run_token :: "'l CancellationToken \<Rightarrow> 'l token_call list \<Rightarrow> 'l CancellationToken \<times> 'l list" where
  "run_token t [] = (t, [])"
| "run_token t (Cancel # cs) =
     (case cancel t of (t', ls, _) \<Rightarrow>
        (case run_token t' cs of (t'', ls') \<Rightarrow> (t'', ls @ ls')))"
| "run_token t (Register cb # cs) = run_token (register t cb) cs"

fun registered :: "'l token_call list \<Rightarrow> 'l callback list" where
  "registered [] = []"
| "registered (Cancel # cs) = registered cs"
| "registered (Register cb # cs) = cb # registered cs"

section \<open>Silo and GrainFactory (silo/silo.ts, the grain factory, the grain proxy)\<close>

text \<open>
  Objects have an identity: \<open>new grainClass(grainArgs)\<close> and \<open>new Proxy(grain,
  handler)\<close> each allocate a fresh object. The identity is a reference number taken
  from an allocation counter. Reading \<open>id\<close> through the proxy goes to the target
  (\<open>Reflect.get\<close>), so the proxy's id is the instance's id. The console output of
  \<open>activateGrain\<close> and \<open>deactivateGrain\<close> is left out. Both methods and
  \<open>getGrain\<close> are synchronous: callers that race for one identity are calls made
  one after another.
\<close>

record GrainInstance =
  obj_ref :: nat
  grain_id :: string

record GrainProxy =
  proxy_ref :: nat
  target :: GrainInstance

record Silo =
  activatedGrains :: "string \<rightharpoonup> GrainProxy"

record World =
  silo :: Silo
  next_ref :: nat

definition activateGrain :: "Silo \<Rightarrow> GrainProxy \<Rightarrow> Silo" where
  "activateGrain s grain =
     s\<lparr>activatedGrains := (activatedGrains s)(grain_id (target grain) \<mapsto> grain)\<rparr>"

definition deactivateGrain :: "Silo \<Rightarrow> string \<Rightarrow> Silo" where
  "deactivateGrain s grainId = s\<lparr>activatedGrains := (activatedGrains s)(grainId := None)\<rparr>"

definition createGrainProxy :: "GrainInstance \<Rightarrow> nat \<Rightarrow> GrainProxy" where
  "createGrainProxy grain r = \<lparr>proxy_ref = r, target = grain\<rparr>"

text \<open>\<open>grainClass\<close> is the constructor: the id of the instance it builds from
  its arguments.\<close>

definition getGrain :: "('args \<Rightarrow> string) \<Rightarrow> 'args \<Rightarrow> World \<Rightarrow> GrainProxy \<times> World" where
  "getGrain grainClass grainArgs w =
     (let inst = \<lparr>obj_ref = next_ref w, grain_id = grainClass grainArgs\<rparr>;
          grainProxy = createGrainProxy inst (Suc (next_ref w));
          s = activateGrain (silo w) grainProxy
      in (grainProxy, w\<lparr>silo := s, next_ref := Suc (Suc (next_ref w))\<rparr>))"

text \<open>Every record in the table was allocated before the counter's current value.\<close>

definition wf_world :: "World \<Rightarrow> bool" where
  "wf_world w = (\<forall>g \<in> ran (activatedGrains (silo w)). proxy_ref g < next_ref w)"

definition emptyWorld :: World where
  "emptyWorld = \<lparr>silo = \<lparr>activatedGrains = Map.empty\<rparr>, next_ref = 0\<rparr>"

text \<open>A grain class whose instances take their id from the constructor argument.\<close>

definition keyedGrain :: "string \<Rightarrow> string" where
  "keyedGrain key = key"

section \<open>LifecycleObservable\<close>

text \<open>
  The sources declare the lifecycle only as interfaces (\<open>ILifecycleObservable.subscribe\<close>,
  \<open>ILifecycleObserver.onStart\<close> and \<open>onStop\<close>); no class implements
  \<open>start\<close> or \<open>stop\<close>. The interfaces are taken from the sources, the two
  operations from the specification.

  An observer's hook is a closure returning a promise. Here a hook is a function on the
  state the observers share: it gives the state it leaves behind and, when the promise
  rejects, the failure. The cancellation token a hook receives is left out.
\<close>

datatype Failure = Failure string | AggregateFailure "Failure list"

record 'st ILifecycleObserver =
  onStart :: "'st \<Rightarrow> 'st \<times> Failure option"
  onStop :: "'st \<Rightarrow> 'st \<times> Failure option"

record 'st Subscription =
  handle :: nat
  observerName :: string
  stage :: int
  observer :: "'st ILifecycleObserver"

record 'st LifecycleObservable =
  subscriptions :: "'st Subscription list"
  next_handle :: nat

definition newLifecycle :: "'st LifecycleObservable" where
  "newLifecycle = \<lparr>subscriptions = [], next_handle = 0\<rparr>"

text \<open>\<open>subscribe(observerName, stage, observer)\<close> returns a disposable; disposing
  it unsubscribes. The disposable is the handle number of the subscription.\<close>

definition subscribe :: "'st LifecycleObservable \<Rightarrow> string \<Rightarrow> int \<Rightarrow> 'st ILifecycleObserver
    \<Rightarrow> 'st LifecycleObservable \<times> nat" where
  "subscribe lc name stg obs =
     (lc\<lparr>subscriptions := subscriptions lc @
            [\<lparr>handle = next_handle lc, observerName = name, stage = stg, observer = obs\<rparr>],
         next_handle := Suc (next_handle lc)\<rparr>,
      next_handle lc)"

definition dispose :: "'st LifecycleObservable \<Rightarrow> nat \<Rightarrow> 'st LifecycleObservable" where
  "dispose lc h = lc\<lparr>subscriptions := filter (\<lambda>s. handle s \<noteq> h) (subscriptions lc)\<rparr>"









subsection \<open>A lifecycle over a log of hook names\<close>



section \<open>Grain state and the storage-provider contract\<close>

text \<open>\<open>IGrainState\<close> is declared in the sources: the version (the etag), the state
  and whether the record exists in storage.\<close>

record 'v IGrainState =
  version :: nat
  state :: 'v
  recordExists :: bool

text \<open>
  The sources declare the provider only as the interface \<open>IGrainStorage\<close>; no class
  implements it. What a provider keeps per (state name, grain identity): the stored
  value, if any, and the current etag.
\<close>

record 'v StoredRecord =
  stored_value :: "'v option"
  stored_etag :: nat

type_synonym 'v Storage = "string \<times> string \<Rightarrow> 'v StoredRecord"

datatype StorageError = ConflictError

definition emptyStorage :: "'v Storage" where
  "emptyStorage = (\<lambda>k. \<lparr>stored_value = None, stored_etag = 0\<rparr>)"

text \<open>
  Modelled from the spec: the storage-provider contract, which no source file
  implements. ``\<open>readState(stateName, identity) -> { value, etag, exists }\<close>;
  \<open>writeState(stateName, identity, value, etag) -> newEtag | ConflictError\<close>;
  \<open>clearState(stateName, identity, etag) -> success | ConflictError\<close>'', with
  ``every PersistentStateRecord write strictly increases its etag and a write with a
  stale etag is rejected, never silently overwritten''. The etag is a number and a
  successful write or clear moves it to the next one. Each operation returns the
  storage it leaves behind with its answer.
\<close>

definition readState :: "'v \<Rightarrow> 'v Storage \<Rightarrow> string \<times> string \<Rightarrow> 'v IGrainState" where
  "readState initial st k =
     (case stored_value (st k) of
        None \<Rightarrow> \<lparr>IGrainState.version = stored_etag (st k), IGrainState.state = initial, recordExists = False\<rparr>
      | Some v \<Rightarrow> \<lparr>IGrainState.version = stored_etag (st k), IGrainState.state = v, recordExists = True\<rparr>)"

definition writeState :: "'v Storage \<Rightarrow> string \<times> string \<Rightarrow> 'v \<Rightarrow> nat
    \<Rightarrow> 'v Storage \<times> (StorageError + nat)" where
  "writeState st k v etag =
     (if etag \<noteq> stored_etag (st k) then (st, Inl ConflictError)
      else (st(k := \<lparr>stored_value = Some v, stored_etag = Suc etag\<rparr>), Inr (Suc etag)))"

definition clearState :: "'v Storage \<Rightarrow> string \<times> string \<Rightarrow> nat
    \<Rightarrow> 'v Storage \<times> (StorageError + nat)" where
  "clearState st k etag =
     (if etag \<noteq> stored_etag (st k) then (st, Inl ConflictError)
      else (st(k := \<lparr>stored_value = None, stored_etag = Suc etag\<rparr>), Inr (Suc etag)))"

text \<open>
  Modelled from the spec: the bridge's \<open>writeState()\<close> and \<open>clearState()\<close>, whose
  class (\<open>PersistentStateBridge\<close>) is not in the sources. ``Each round-trips through
  the storage-provider contract with the record's current etag. A stale-etag response
  surfaces as a Conflict error to the calling turn -- there is no automatic retry''.
  On success the record takes the new etag.
\<close>

definition bridge_writeState :: "'v Storage \<Rightarrow> string \<times> string \<Rightarrow> 'v IGrainState
    \<Rightarrow> 'v Storage \<times> (StorageError + 'v IGrainState)" where
  "bridge_writeState st k g =
     (case writeState st k (IGrainState.state g) (IGrainState.version g) of
        (st', Inl e) \<Rightarrow> (st', Inl e)
      | (st', Inr etag) \<Rightarrow> (st', Inr (g\<lparr>IGrainState.version := etag, recordExists := True\<rparr>)))"

definition bridge_clearState :: "'v Storage \<Rightarrow> string \<times> string \<Rightarrow> 'v IGrainState
    \<Rightarrow> 'v Storage \<times> (StorageError + 'v IGrainState)" where
  "bridge_clearState st k g =
     (case clearState st k (IGrainState.version g) of
        (st', Inl e) \<Rightarrow> (st', Inl e)
      | (st', Inr etag) \<Rightarrow> (st', Inr (g\<lparr>IGrainState.version := etag, recordExists := False\<rparr>)))"

text \<open>Any sequence of writes and clears, by any callers, against one storage.\<close>

datatype 'v StorageCall =
    WriteState "string \<times> string" 'v nat
  | ClearState "string \<times> string" nat

fun storage_call :: "'v Storage \<Rightarrow> 'v StorageCall \<Rightarrow> 'v Storage" where
  "storage_call st (WriteState k v etag) = fst (writeState st k v etag)"
| "storage_call st (ClearState k etag) = fst (clearState st k etag)"

definition storage_calls :: "'v Storage \<Rightarrow> 'v StorageCall list \<Rightarrow> 'v Storage" where
  "storage_calls st cs = foldl storage_call st cs"

subsection \<open>A profile slot\<close>

definition profileKey :: "string \<times> string" where
  "profileKey = (''profile'', ''user/42'')"

section \<open>Service provider and PersistentStateFactory (grains/service_provider.ts,
  grains/persistent_state.ts)\<close>

text \<open>
  The storage name of a configuration has type \<open>string | None\<close>, where \<open>None\<close> is
  the \<open>None\<close> object of the \<open>ts-results\<close> library: \<open>IPersistentStateAttribute\<close>
  stores it when no name is given. \<open>PersistentStateAttribute\<close> declares the name
  optional, so there an omitted name is \<open>undefined\<close>. In a condition a string is
  true when it is not empty, an object is true, \<open>undefined\<close> is false.
\<close>

datatype StorageName = NameString string | NameNone | NameUndefined

fun truthy_name :: "StorageName \<Rightarrow> bool" where
  "truthy_name (NameString s) = (s \<noteq> [])"
| "truthy_name NameNone = True"
| "truthy_name NameUndefined = False"

record IPersistentStateConfiguration =
  stateName :: string
  storageName :: StorageName


definition PersistentStateAttribute :: "string \<Rightarrow> string option \<Rightarrow> IPersistentStateConfiguration" where
  "PersistentStateAttribute name storage =
     \<lparr>stateName = name,
      storageName = (case storage of None \<Rightarrow> NameUndefined | Some s \<Rightarrow> NameString s)\<rparr>"

text \<open>
  The services registered with a \<open>ServiceProvider\<close>: storage providers
  (\<open>service instanceof IGrainStorage\<close>) and others. \<open>getServiceByName\<close> is called
  by the factory but declared nowhere (the class has it commented out, returning
  \<open>T | null\<close>): it is a parameter, with \<open>None\<close> for \<open>null\<close>.
\<close>

datatype 'p Service = is_StorageService: StorageService 'p | OtherService string

record 'p ServiceProvider =
  services :: "'p Service list"
  getServiceByName :: "StorageName \<Rightarrow> 'p option"

text \<open>
  What the variable \<open>storageProvider\<close> of the factory can hold: \<open>null\<close>, a
  provider, or what \<open>getService\<close> returns, which is an \<open>Option\<close> of
  \<open>ts-results\<close>: the object \<open>Some(service)\<close> or the object \<open>None\<close>. Only
  \<open>null\<close> is false in a condition.
\<close>

datatype 'p JsValue = JsNull | JsProvider 'p | JsSome "'p Service" | JsNone

fun truthy :: "'p JsValue \<Rightarrow> bool" where
  "truthy JsNull = False"
| "truthy (JsProvider p) = True"
| "truthy (JsSome service) = True"
| "truthy JsNone = True"

text \<open>\<open>Array.prototype.find\<close> with a callback that may throw: the first element
  the callback accepts, \<open>undefined\<close> (here \<open>None\<close>) when it accepts none;
  what the callback throws leaves \<open>find\<close>.\<close>

fun find_js :: "('a \<Rightarrow> Failure + bool) \<Rightarrow> 'a list \<Rightarrow> Failure + 'a option" where
  "find_js f [] = Inr None"
| "find_js f (x # xs) =
     (case f x of
        Inl e \<Rightarrow> Inl e
      | Inr True \<Rightarrow> Inr (Some x)
      | Inr False \<Rightarrow> find_js f xs)"

text \<open>
  The callback of \<open>getService\<close> is \<open>(service) => service instanceof T\<close>,
  where \<open>T\<close> is the type parameter of the method. Type parameters are erased: at
  run time \<open>T\<close> names nothing, and evaluating the test throws a
  \<open>ReferenceError\<close>, whatever the service.
\<close>

definition instanceof_T :: "'p Service \<Rightarrow> Failure + bool" where
  "instanceof_T service = Inl (Failure ''ReferenceError: T is not defined'')"

definition getService :: "'p ServiceProvider \<Rightarrow> Failure + 'p JsValue" where
  "getService sp =
     (case find_js instanceof_T (services sp) of
        Inl e \<Rightarrow> Inl e
      | Inr None \<Rightarrow> Inr JsNone
      | Inr (Some service) \<Rightarrow> Inr (JsSome service))"

text \<open>
  Modelled from the spec: the numbers of the lifecycle stages; the sources import
  \<open>GrainLifecycleStage\<close> from a file that is not there. ``Well-known stages
  (ascending): First, SetupState, Activate, Last''.
\<close>

definition First :: int where "First = - 2147483648"
definition SetupState :: int where "SetupState = 1000"
definition Activate :: int where "Activate = 2000"
definition Last :: int where "Last = 2147483647"

text \<open>The state the lifecycle hooks of one activation work on: the storage of each
  provider, and the grain's state records by state name.\<close>

record ('p, 'v) GrainWorld =
  storages :: "'p \<Rightarrow> 'v Storage"
  records :: "string \<rightharpoonup> 'v IGrainState"


record ('p, 'v) IGrainContext =
  grainId :: string
  activationServices :: "'p ServiceProvider"
  observableLifecycle :: "('p, 'v) GrainWorld LifecycleObservable"

record ('p, 'v) PersistentStateBridge =
  fullStateName :: string
  bridge_grainId :: string
  storageProvider :: "'p JsValue"
  initialState :: 'v

text \<open>
  Modelled from the spec: the bridge's \<open>participate\<close> and its hook; the class
  \<open>PersistentStateBridge\<close> is not in the sources. ``Participates at the SetupState
  stage: its Start-stage hook performs \<open>readState\<close>, populating the record''. It
  follows \<open>GrainWithState.participate\<close> and \<open>onSetupState\<close> of the sources, which
  subscribe \<open>onSetupState\<close> at \<open>GrainLifecycleStage.SetupState\<close> under the class
  name and return \<open>readState()\<close>. Calling \<open>readState\<close> on something that is not a
  provider fails.
\<close>

definition onSetupState :: "('p, 'v) PersistentStateBridge \<Rightarrow> ('p, 'v) GrainWorld
    \<Rightarrow> ('p, 'v) GrainWorld \<times> Failure option" where
  "onSetupState b w =
     (case storageProvider b of
        JsProvider p \<Rightarrow>
          (w\<lparr>records := (records w)(fullStateName b \<mapsto>
               readState (initialState b) (storages w p) (fullStateName b, bridge_grainId b))\<rparr>,
           None)
      | _ \<Rightarrow> (w, Some (Failure ''storageProvider.readState is not a function'')))"

definition participate :: "('p, 'v) PersistentStateBridge \<Rightarrow> ('p, 'v) GrainWorld LifecycleObservable
    \<Rightarrow> ('p, 'v) GrainWorld LifecycleObservable \<times> nat" where
  "participate b lifecycle =
     subscribe lifecycle ''PersistentStateBridge'' SetupState
       \<lparr>onStart = onSetupState b, onStop = (\<lambda>w. (w, None))\<rparr>"

text \<open>\<open>PersistentStateFactory.create\<close>, as the sources have it. \<open>initial\<close> is the
  initial value of the state type.\<close>

definition create :: "('p, 'v) IGrainContext \<Rightarrow> IPersistentStateConfiguration \<Rightarrow> 'v
    \<Rightarrow> Failure + (('p, 'v) PersistentStateBridge \<times> ('p, 'v) IGrainContext)" where
  "create context config initial =
     (case (if truthy_name (storageName config)
            then Inr (case getServiceByName (activationServices context) (storageName config) of
                        None \<Rightarrow> JsNull
                      | Some p \<Rightarrow> JsProvider p)
            else getService (activationServices context)) of
        Inl e \<Rightarrow> Inl e
      | Inr found \<Rightarrow>
          (let storageProvider = found
           in if \<not> truthy storageProvider
              then Inl (Failure (''Missing provider exception: '' @ grainId context))
              else
                (let fullStateName = stateName config;
                     bridge = \<lparr>fullStateName = fullStateName, bridge_grainId = grainId context,
                                storageProvider = storageProvider, initialState = initial\<rparr>
                 in Inr (bridge,
                         context\<lparr>observableLifecycle :=
                           fst (participate bridge (observableLifecycle context))\<rparr>))))"

text \<open>Whether a provider can be resolved for a configuration: by name when a name is
  configured, the default provider otherwise.\<close>

definition resolvable :: "('p, 'v) IGrainContext \<Rightarrow> IPersistentStateConfiguration \<Rightarrow> bool" where
  "resolvable context config =
     (case storageName config of
        NameString s \<Rightarrow>
          (if s = [] then find is_StorageService (services (activationServices context)) \<noteq> None
           else getServiceByName (activationServices context) (NameString s) \<noteq> None)
      | _ \<Rightarrow> find is_StorageService (services (activationServices context)) \<noteq> None)"

subsection \<open>Contexts without a default provider\<close>

text \<open>One with a logger and a provider reachable by the name \<open>profileStore\<close>,
  one with no service at all.\<close>

definition namedOnly :: "nat ServiceProvider" where
  "namedOnly = \<lparr>services = [OtherService ''logger''],
     getServiceByName = (\<lambda>n. if n = NameString ''profileStore'' then Some 1 else None)\<rparr>"

text \<open>What the grain does to its profile slot, in its \<open>onActivate\<close> hook and in
  its turns: it sets the state to 8, if the slot has a record.\<close>

definition setProfile :: "(nat, nat) GrainWorld \<Rightarrow> (nat, nat) GrainWorld" where
  "setProfile w =
     (case records w ''profile'' of
        None \<Rightarrow> w
      | Some g \<Rightarrow> w\<lparr>records := (records w)(''profile'' \<mapsto> g\<lparr>IGrainState.state := 8\<rparr>)\<rparr>)"

definition grainObserver :: "(nat, nat) GrainWorld ILifecycleObserver" where
  "grainObserver = \<lparr>onStart = (\<lambda>w. (setProfile w, None)), onStop = (\<lambda>w. (w, None))\<rparr>"

definition userContext :: "(nat, nat) IGrainContext" where
  "userContext = \<lparr>grainId = ''user/42'', activationServices = namedOnly,
     observableLifecycle = fst (subscribe newLifecycle ''UserGrain'' Activate grainObserver)\<rparr>"

definition noServices :: "nat ServiceProvider" where
  "noServices = \<lparr>services = [], getServiceByName = (\<lambda>n. None)\<rparr>"

definition bareContext :: "(nat, nat) IGrainContext" where
  "bareContext = \<lparr>grainId = ''user/42'', activationServices = noServices,
     observableLifecycle = newLifecycle\<rparr>"


section \<open>Activations, collection and the grain runtime\<close>

text \<open>
  The sources declare \<open>ICollectibleGrainContext\<close> (with \<open>keepAliveUntil\<close>,
  \<open>collectionAgeLimit\<close> and \<open>delayDeactivation(timeSpan)\<close>) as an interface only,
  and have no activation table. The activation record follows the specification's data
  model; times are milliseconds.
\<close>

datatype ActivationState = Activating | Active | Deactivating | Invalid

record ('t, 'w) Activation =
  identity :: "string \<times> string"
  activationState :: ActivationState
  lastActive :: int
  keepAliveUntil :: "int option"
  collectionAgeLimit :: int
  turnQueue :: "'t list"
  world :: 'w

text \<open>
  Modelled from the spec: \<open>delayDeactivation\<close> of the collectible context, which no
  source file implements. ``Sets keep-alive-until = now + duration, always overwriting
  the prior value (last write wins, not cumulative). A non-positive duration
  immediately clears the override''. \<open>None\<close> is the cleared override.
\<close>

definition delayDeactivation :: "int \<Rightarrow> int \<Rightarrow> ('t, 'w) Activation \<Rightarrow> ('t, 'w) Activation" where
  "delayDeactivation now timeSpan a =
     (if timeSpan \<le> 0 then a\<lparr>keepAliveUntil := None\<rparr>
      else a\<lparr>keepAliveUntil := Some (now + timeSpan)\<rparr>)"

text \<open>
  Modelled from the spec: which activations a sweep of the collection manager
  deactivates. ``Each Active activation with an empty turn queue, idle age (now -
  last-active) exceeding its collection-age limit, and now past its keep-alive-until
  timestamp''. The first three conditions are the normal policy.
\<close>

definition idle_expired :: "int \<Rightarrow> ('t, 'w) Activation \<Rightarrow> bool" where
  "idle_expired now a =
     (activationState a = Active \<and> turnQueue a = [] \<and> collectionAgeLimit a < now - lastActive a)"

definition collectible :: "int \<Rightarrow> ('t, 'w) Activation \<Rightarrow> bool" where
  "collectible now a =
     (idle_expired now a \<and> (case keepAliveUntil a of None \<Rightarrow> True | Some t \<Rightarrow> t < now))"

text \<open>
  \<open>GrainRuntime.delayDeactivation\<close> and \<open>Grain.delayDeactivation\<close>, as the sources
  have them: the runtime refuses a missing context (\<open>checkRuntimeContext\<close> throws) and
  otherwise hands the time span to the context; the grain refuses to work without a
  runtime (\<open>ensureRuntime\<close> throws) and passes its own context or, without one,
  \<open>RuntimeContext.current\<close>.
\<close>

datatype GrainError = NoRuntime | ActivationAccessViolation

definition checkRuntimeContext :: "'c option \<Rightarrow> GrainError + unit" where
  "checkRuntimeContext context =
     (case context of None \<Rightarrow> Inl ActivationAccessViolation | Some c \<Rightarrow> Inr ())"

definition GrainRuntime_delayDeactivation :: "int \<Rightarrow> ('t, 'w) Activation option \<Rightarrow> int
    \<Rightarrow> GrainError + ('t, 'w) Activation" where
  "GrainRuntime_delayDeactivation now grainContext timeSpan =
     (case checkRuntimeContext grainContext of
        Inl e \<Rightarrow> Inl e
      | Inr u \<Rightarrow>
          (case grainContext of
             None \<Rightarrow> Inl ActivationAccessViolation
           | Some a \<Rightarrow> Inr (delayDeactivation now timeSpan a)))"

definition Grain_delayDeactivation :: "bool \<Rightarrow> int \<Rightarrow> ('t, 'w) Activation option
    \<Rightarrow> ('t, 'w) Activation option \<Rightarrow> int \<Rightarrow> GrainError + ('t, 'w) Activation" where
  "Grain_delayDeactivation hasRuntime now grainContext current timeSpan =
     (if \<not> hasRuntime then Inl NoRuntime
      else GrainRuntime_delayDeactivation now
             (case grainContext of None \<Rightarrow> current | Some c \<Rightarrow> Some c) timeSpan)"




subsection \<open>An idle activation, and one being activated\<close>

definition idleActivation :: "(nat, unit) Activation" where
  "idleActivation = \<lparr>identity = (''UserGrain'', ''42''), activationState = Active, lastActive = 0,
     keepAliveUntil = Some 900, collectionAgeLimit = 100, turnQueue = [], world = ()\<rparr>"


section \<open>Actor (the state-history actor with undo/redo history)\<close>

text \<open>
  A message carries a \<open>type\<close> and an optional \<open>version\<close>; concrete
  message types extend it. The history keeps, per processed message, the state after the
  message and the inverse patches Immer computed for it.
\<close>

record BaseMessage =
  type :: string
  version :: "int option"

record ('s, 'p) StateChange =
  state :: 's
  inversePatches :: 'p

record 'c History =
  past :: "'c list"
  future :: "'c list"

text \<open>
  A subscriber is a closure \<open>(state) => void\<close>. What matters of it for the
  actor is which messages it sends back to the actor (through \<open>sendMessage\<close>)
  while it runs, given the state it was handed, and whether it then throws; a
  subscriber that only observes sends none and does not throw. A subscriber does not
  catch what a \<open>sendMessage\<close> it called throws.
\<close>

type_synonym ('s, 'x) subscriber = "'s \<Rightarrow> 'x BaseMessage_scheme list \<times> bool"

text \<open>Of the methods, \<open>sendMessage\<close>, \<open>processMessage\<close> and
  \<open>notifySubscribers\<close> are modelled. The fields \<open>parent\<close> and
  \<open>children\<close> are read by none of them and are left out.\<close>

record ('s, 'p, 'x) Actor =
  actor_id :: string
  state :: 's
  subscribers :: "('s, 'x) subscriber list"
  history :: "('s, 'p) StateChange History"

text \<open>
  The abstract methods of a concrete actor class, and Immer's \<open>produceWithPatches\<close>:
  \<open>handleMessage\<close> gives the state the recipe produces from the draft, or
  \<open>None\<close> when the handler throws (\<open>produceWithPatches\<close> then throws and
  the state is untouched); \<open>inversePatchesOf old new\<close> gives the inverse patches
  of the change.
\<close>

record ('s, 'p, 'x) ActorClass =
  isMessageTypeValid :: "string \<Rightarrow> bool"
  handleMessage :: "'s \<Rightarrow> 'x BaseMessage_scheme \<Rightarrow> 's option"
  inversePatchesOf :: "'s \<Rightarrow> 's \<Rightarrow> 'p"

text \<open>
  What a call does that can be seen from outside: the console warning; a handler that
  threw; the start of a turn (the handler has returned: the state is replaced and the
  history pushed); each call of a subscriber (its position in the array and the state
  it received); the end of a turn (\<open>processMessage\<close> returns); a turn cut short
  by an exception that leaves \<open>processMessage\<close>.
\<close>

datatype ('s, 'x) event =
    is_Warn: Warn string
  | is_HandlerThrew: HandlerThrew "'x BaseMessage_scheme"
  | is_TurnBegin: TurnBegin "'x BaseMessage_scheme"
  | is_Notified: Notified nat 's
  | is_TurnEnd: TurnEnd "'x BaseMessage_scheme"
  | is_TurnAborted: TurnAborted "'x BaseMessage_scheme"

text \<open>What a call can throw: the handler's exception, the exception of the subscriber
  at a position, and the call stack running out.\<close>

datatype ActorError = HandlerError | SubscriberError nat | RangeError

text \<open>
  \<open>sendMessage\<close> is synchronous: it runs the turn inside the call. A subscriber
  that sends a message starts a nested call. The first argument is the depth of nested
  calls the call stack still has room for. Every function returns the actor it leaves
  behind, the events, and the exception that left the call, if any: what a turn did
  before an exception stays done.
\<close>

fun sendMessage :: "nat \<Rightarrow> ('s, 'p, 'x) ActorClass \<Rightarrow> ('s, 'p, 'x) Actor \<Rightarrow> 'x BaseMessage_scheme
      \<Rightarrow> ('s, 'p, 'x) Actor \<times> ('s, 'x) event list \<times> ActorError option"
  and processMessage :: "nat \<Rightarrow> ('s, 'p, 'x) ActorClass \<Rightarrow> ('s, 'p, 'x) Actor \<Rightarrow> 'x BaseMessage_scheme
      \<Rightarrow> ('s, 'p, 'x) Actor \<times> ('s, 'x) event list \<times> ActorError option"
  and notifySubscribers :: "nat \<Rightarrow> ('s, 'p, 'x) ActorClass \<Rightarrow> ('s, 'x) subscriber list \<Rightarrow> nat
      \<Rightarrow> ('s, 'p, 'x) Actor \<Rightarrow> ('s, 'p, 'x) Actor \<times> ('s, 'x) event list \<times> ActorError option"
  and callback_sends :: "nat \<Rightarrow> ('s, 'p, 'x) ActorClass \<Rightarrow> 'x BaseMessage_scheme list
      \<Rightarrow> ('s, 'p, 'x) Actor \<Rightarrow> ('s, 'p, 'x) Actor \<times> ('s, 'x) event list \<times> ActorError option"
where
  "sendMessage n cls a m =
     (if \<not> isMessageTypeValid cls (type m) then (a, [Warn (type m)], None)
      else processMessage n cls a m)"
| "processMessage n cls a m =
     (case handleMessage cls (state a) m of
        None \<Rightarrow> (a, [HandlerThrew m], Some HandlerError)
      | Some newState \<Rightarrow>
          (let inv = inversePatchesOf cls (state a) newState;
               a1 = a\<lparr>state := newState\<rparr>;
               a2 = a1\<lparr>history := (history a1)\<lparr>past := past (history a1) @
                       [\<lparr>StateChange.state = state a1, inversePatches = inv\<rparr>]\<rparr>\<rparr>;
               a3 = a2\<lparr>history := (history a2)\<lparr>future := []\<rparr>\<rparr>
           in (case notifySubscribers n cls (subscribers a3) 0 a3 of
                 (a4, tr, None) \<Rightarrow> (a4, TurnBegin m # tr @ [TurnEnd m], None)
               | (a4, tr, Some e) \<Rightarrow> (a4, TurnBegin m # tr @ [TurnAborted m], Some e))))"
| "notifySubscribers n cls [] i a = (a, [], None)"
| "notifySubscribers n cls (cb # cbs) i a =
     (case callback_sends n cls (fst (cb (state a))) a of
        (a1, t1, Some e) \<Rightarrow> (a1, Notified i (state a) # t1, Some e)
      | (a1, t1, None) \<Rightarrow>
          (if snd (cb (state a)) then (a1, Notified i (state a) # t1, Some (SubscriberError i))
           else (case notifySubscribers n cls cbs (Suc i) a1 of
                   (a2, t2, r) \<Rightarrow> (a2, Notified i (state a) # t1 @ t2, r))))"
| "callback_sends n cls [] a = (a, [], None)"
| "callback_sends 0 cls (m # ms) a = (a, [], Some RangeError)"
| "callback_sends (Suc n) cls (m # ms) a =
     (case sendMessage n cls a m of
        (a1, t1, Some e) \<Rightarrow> (a1, t1, Some e)
      | (a1, t1, None) \<Rightarrow>
          (case callback_sends (Suc n) cls ms a1 of
             (a2, t2, r) \<Rightarrow> (a2, t1 @ t2, r)))"


definition turns_begun :: "('s, 'x) event list \<Rightarrow> nat" where
  "turns_begun tr = length (filter is_TurnBegin tr)"

definition turn_events :: "('s, 'x) event list \<Rightarrow> ('s, 'x) event list" where
  "turn_events tr = filter (\<lambda>e. is_TurnBegin e \<or> is_TurnEnd e \<or> is_TurnAborted e) tr"

text \<open>The subscribers at positions \<open>i\<close>, \<open>i + 1\<close>, ... are each called with
  the state \<open>s\<close>.\<close>

fun notifications :: "nat \<Rightarrow> 's \<Rightarrow> nat \<Rightarrow> ('s, 'x) event list" where
  "notifications i s 0 = []"
| "notifications i s (Suc k) = Notified i s # notifications (Suc i) s k"






subsection \<open>A counter actor\<close>


definition msgB :: BaseMessage where
  "msgB = \<lparr>type = ''B'', version = None\<rparr>"

definition msgUnknown :: BaseMessage where
  "msgUnknown = \<lparr>type = ''zzz'', version = Some 2\<rparr>"

definition counterClass :: "(nat, nat, unit) ActorClass" where
  "counterClass = \<lparr>isMessageTypeValid = (\<lambda>t. t = ''A'' \<or> t = ''B''),
     handleMessage = (\<lambda>s m. Some (Suc s)),
     inversePatchesOf = (\<lambda>old new. old)\<rparr>"


definition resend_once :: "(nat, unit) subscriber" where
  "resend_once s = (if s = 1 then [msgB] else [], False)"


definition reentrantActor :: "(nat, nat, unit) Actor" where
  "reentrantActor = \<lparr>actor_id = ''counter'', state = 0, subscribers = [resend_once],
     history = \<lparr>past = [], future = []\<rparr>\<rparr>"

chapter \<open>Properties\<close>

section \<open>CancellationToken: facts\<close>

lemma forEach_call_no_throw:
  "\<forall>c \<in> set cs. \<not> throws c \<Longrightarrow> forEach_call cs = (map label cs, False)"
  by (induction cs) auto

lemma run_token_no_cancel:
  "Cancel \<notin> set cs \<Longrightarrow>
     run_token t cs = (t\<lparr>onCancelCallbacks := onCancelCallbacks t @ registered cs\<rparr>, [])"
proof (induction cs arbitrary: t)
  case Nil
  then show ?case by simp
next
  case (Cons c cs)
  then show ?case by (cases c) (auto simp: register_def)
qed

lemma fst_run_token_Cancel:
  "fst (run_token t (Cancel # cs)) = fst (run_token (fst (cancel t)) cs)"
  by (simp split: prod.splits)

lemma snd_run_token_Cancel:
  "snd (run_token t (Cancel # cs)) = fst (snd (cancel t)) @ snd (run_token (fst (cancel t)) cs)"
  by (simp split: prod.splits)

lemma run_token_callbacks:
  "onCancelCallbacks (fst (run_token t cs)) = onCancelCallbacks t @ registered cs"
proof (induction cs arbitrary: t)
  case Nil
  then show ?case by simp
next
  case (Cons c cs)
  show ?case
  proof (cases c)
    case Cancel
    then show ?thesis
      using Cons.IH [of "fst (cancel t)"]
      by (simp only: fst_run_token_Cancel) (simp add: cancel_def Let_def)
  next
    case (Register cb)
    then show ?thesis
      using Cons.IH [of "register t cb"] by (simp add: register_def)
  qed
qed

lemma run_token_stays_canceled:
  "isCanceled t \<Longrightarrow> isCanceled (fst (run_token t cs))"
proof (induction cs arbitrary: t)
  case Nil
  then show ?case by simp
next
  case (Cons c cs)
  show ?case
  proof (cases c)
    case Cancel
    then show ?thesis
      using Cons.IH [of "fst (cancel t)"]
      by (simp only: fst_run_token_Cancel) (simp add: cancel_def Let_def)
  next
    case (Register cb)
    then show ?thesis
      using Cons.IH [of "register t cb"] Cons.prems by (simp add: register_def)
  qed
qed

lemma forEach_call_stops:
  "forEach_call cs =
     (map label (takeWhile (\<lambda>c. \<not> throws c) cs @ take 1 (dropWhile (\<lambda>c. \<not> throws c) cs)),
      list_ex throws cs)"
  by (induction cs) auto

text \<open>
  Claim C10, as the code has it. A fresh token reports no cancellation, and keeps doing
  so (with no callback invoked) for as long as \<open>cancel\<close> is not called; once
  \<open>cancel\<close> has been called the token reports cancellation after every later
  sequence of calls; the array holds exactly the callbacks registered so far, in
  registration order, and \<open>cancel\<close> calls all of them in that order when none
  throws; in general \<open>cancel\<close> calls, in that order, the callbacks before the
  first one that throws and that one, none after it, and throws exactly when one of
  them throws; \<open>register\<close> on a cancelled token calls nothing, and the callback
  it stored stays uncalled for as long as \<open>cancel\<close> is not called again.
\<close>

theorem C10_cancellation_token:
  "\<not> isCancellationRequested (newCancellationToken :: 'l CancellationToken)
   \<and> (Cancel \<notin> set cs \<longrightarrow>
        \<not> isCancellationRequested (fst (run_token (newCancellationToken :: 'l CancellationToken) cs))
        \<and> snd (run_token (newCancellationToken :: 'l CancellationToken) cs) = [])
   \<and> isCancellationRequested (fst (run_token (fst (cancel t)) cs'))
   \<and> onCancelCallbacks (fst (run_token (newCancellationToken :: 'l CancellationToken) cs)) = registered cs
   \<and> ((\<forall>c \<in> set (onCancelCallbacks t). \<not> throws c) \<longrightarrow>
        snd (cancel t) = (map label (onCancelCallbacks t), False))
   \<and> snd (cancel t) =
        (map label (takeWhile (\<lambda>c. \<not> throws c) (onCancelCallbacks t)
                    @ take 1 (dropWhile (\<lambda>c. \<not> throws c) (onCancelCallbacks t))),
         list_ex throws (onCancelCallbacks t))
   \<and> (Cancel \<notin> set cs' \<longrightarrow> snd (run_token (register (fst (cancel t)) cb) cs') = [])"
proof -
  have a: "\<not> isCancellationRequested (newCancellationToken :: 'l CancellationToken)"
    by (simp add: isCancellationRequested_def newCancellationToken_def)
  have b: "Cancel \<notin> set cs \<longrightarrow>
        \<not> isCancellationRequested (fst (run_token (newCancellationToken :: 'l CancellationToken) cs))
        \<and> snd (run_token (newCancellationToken :: 'l CancellationToken) cs) = []"
    by (simp add: run_token_no_cancel isCancellationRequested_def newCancellationToken_def)
  have "isCanceled (fst (cancel t))"
    by (simp add: cancel_def Let_def)
  then have c: "isCancellationRequested (fst (run_token (fst (cancel t)) cs'))"
    unfolding isCancellationRequested_def by (rule run_token_stays_canceled)
  have d: "onCancelCallbacks (fst (run_token (newCancellationToken :: 'l CancellationToken) cs)) = registered cs"
    by (simp add: run_token_callbacks newCancellationToken_def)
  have e: "(\<forall>c \<in> set (onCancelCallbacks t). \<not> throws c) \<longrightarrow>
        snd (cancel t) = (map label (onCancelCallbacks t), False)"
    by (simp add: cancel_def Let_def forEach_call_no_throw)
  have f: "Cancel \<notin> set cs' \<longrightarrow> snd (run_token (register (fst (cancel t)) cb) cs') = []"
    by (simp add: run_token_no_cancel)
  have g: "snd (cancel t) =
        (map label (takeWhile (\<lambda>c. \<not> throws c) (onCancelCallbacks t)
                    @ take 1 (dropWhile (\<lambda>c. \<not> throws c) (onCancelCallbacks t))),
         list_ex throws (onCancelCallbacks t))"
    by (simp add: cancel_def Let_def forEach_call_stops)
  from a b c d e f g show ?thesis by blast
qed

theorem C10_cancellation_token_witness:
  "Cancel \<notin> set [Register (Callback (1::nat) False), Register (Callback 2 False)]
   \<and> \<not> isCancellationRequested
         (fst (run_token newCancellationToken [Register (Callback (1::nat) False), Register (Callback 2 False)]))
   \<and> list_all (\<lambda>c. \<not> throws c) (onCancelCallbacks
          (fst (run_token newCancellationToken [Register (Callback (1::nat) False), Register (Callback 2 False)])))
   \<and> snd (cancel (fst (run_token newCancellationToken
          [Register (Callback (1::nat) False), Register (Callback 2 False)]))) = ([1, 2], False)
   \<and> Cancel \<notin> set [Register (Callback (4::nat) False)]
   \<and> snd (run_token (register (fst (cancel (fst (run_token newCancellationToken
          [Register (Callback (1::nat) False), Register (Callback 2 False)])))) (Callback 3 False))
          [Register (Callback 4 False)]) = []
   \<and> snd (cancel (fst (run_token newCancellationToken
          [Register (Callback (1::nat) False), Register (Callback 2 True), Register (Callback 3 False)])))
       = ([1, 2], True)"
  using C10_cancellation_token
    [of "[Register (Callback (1::nat) False), Register (Callback 2 False)]"
        "fst (run_token newCancellationToken [Register (Callback (1::nat) False), Register (Callback 2 False)])"
        "[Register (Callback 4 False)]" "Callback 3 False"]
    C10_cancellation_token
    [of "[]"
        "fst (run_token newCancellationToken
          [Register (Callback (1::nat) False), Register (Callback 2 True), Register (Callback 3 False)])"
        "[]" "Callback 3 False"]
  by (simp add: newCancellationToken_def register_def cancel_def Let_def
      isCancellationRequested_def)

text \<open>
  The claim as written fails: a callback registered on an already cancelled token is
  called by the next \<open>cancel\<close>, and a throwing callback keeps the callbacks
  registered after it from being called.
\<close>

theorem C10_registered_after_cancel_counterexample:
  "isCancellationRequested (fst (cancel (newCancellationToken :: nat CancellationToken)))
   \<and> snd (cancel (register (fst (cancel newCancellationToken)) (Callback (7::nat) False))) = ([7], False)
   \<and> snd (cancel (register (register newCancellationToken (Callback (1::nat) True)) (Callback 2 False)))
       = ([1], True)"
  by (simp add: isCancellationRequested_def cancel_def register_def newCancellationToken_def)

section \<open>Silo and GrainFactory: facts\<close>

lemma wf_emptyWorld: "wf_world emptyWorld"
  by (simp add: wf_world_def emptyWorld_def)

lemma getGrain_table:
  "activatedGrains (silo (snd (getGrain cls args w)))
     = (activatedGrains (silo w))(cls args \<mapsto> fst (getGrain cls args w))"
  by (simp add: getGrain_def Let_def activateGrain_def createGrainProxy_def)

lemma getGrain_fresh:
  assumes "wf_world w"
  shows "fst (getGrain cls args w) \<notin> ran (activatedGrains (silo w))"
proof
  assume "fst (getGrain cls args w) \<in> ran (activatedGrains (silo w))"
  with assms have "proxy_ref (fst (getGrain cls args w)) < next_ref w"
    by (simp add: wf_world_def)
  then show False
    by (simp add: getGrain_def Let_def createGrainProxy_def)
qed

lemma getGrain_wf:
  assumes "wf_world w"
  shows "wf_world (snd (getGrain cls args w))"
  unfolding wf_world_def
proof
  fix g
  assume "g \<in> ran (activatedGrains (silo (snd (getGrain cls args w))))"
  then obtain k where k: "activatedGrains (silo (snd (getGrain cls args w))) k = Some g"
    by (auto simp: ran_def)
  have n: "next_ref (snd (getGrain cls args w)) = Suc (Suc (next_ref w))"
    by (simp add: getGrain_def Let_def)
  show "proxy_ref g < next_ref (snd (getGrain cls args w))"
  proof (cases "k = cls args")
    case True
    with k have "g = fst (getGrain cls args w)"
      by (simp add: getGrain_table)
    then show ?thesis using n
      by (simp add: getGrain_def Let_def createGrainProxy_def)
  next
    case False
    with k have "activatedGrains (silo w) k = Some g"
      by (simp add: getGrain_table)
    then have "g \<in> ran (activatedGrains (silo w))"
      by (auto simp: ran_def)
    with assms have "proxy_ref g < next_ref w"
      by (simp add: wf_world_def)
    with n show ?thesis by simp
  qed
qed

text \<open>
  Claim C1, as the code has it. The table is a map, so it holds at most one record per
  identity. \<open>activateGrain\<close> stores the record it is given under the record's id,
  whatever the table held for that id. \<open>getGrain\<close> never looks the identity up: it
  builds a new instance and proxy on every call, so the record it returns is none of
  the records in the table, and after the call the table holds the new record for the
  identity and leaves the other identities as they were.
\<close>

theorem C1_getGrain_replaces:
  assumes "wf_world w"
  shows "activatedGrains (activateGrain s g) = (activatedGrains s)(grain_id (target g) \<mapsto> g)
     \<and> fst (getGrain cls args w) \<notin> ran (activatedGrains (silo w))
     \<and> grain_id (target (fst (getGrain cls args w))) = cls args
     \<and> activatedGrains (silo (snd (getGrain cls args w)))
         = (activatedGrains (silo w))(cls args \<mapsto> fst (getGrain cls args w))
     \<and> wf_world (snd (getGrain cls args w))"
proof -
  have "activatedGrains (activateGrain s g) = (activatedGrains s)(grain_id (target g) \<mapsto> g)"
    by (simp add: activateGrain_def)
  moreover have "grain_id (target (fst (getGrain cls args w))) = cls args"
    by (simp add: getGrain_def Let_def createGrainProxy_def)
  ultimately show ?thesis
    using getGrain_fresh [OF assms, of cls args] getGrain_table [of cls args w]
      getGrain_wf [OF assms, of cls args]
    by simp
qed

theorem C1_getGrain_replaces_witness:
  "wf_world (snd (getGrain keyedGrain ''cart-1'' emptyWorld))
   \<and> activatedGrains (silo (snd (getGrain keyedGrain ''cart-1'' emptyWorld))) ''cart-1''
       = Some \<lparr>proxy_ref = 1, target = \<lparr>obj_ref = 0, grain_id = ''cart-1''\<rparr>\<rparr>
   \<and> fst (getGrain keyedGrain ''cart-1'' (snd (getGrain keyedGrain ''cart-1'' emptyWorld)))
       = \<lparr>proxy_ref = 3, target = \<lparr>obj_ref = 2, grain_id = ''cart-1''\<rparr>\<rparr>
   \<and> fst (getGrain keyedGrain ''cart-1'' (snd (getGrain keyedGrain ''cart-1'' emptyWorld)))
       \<notin> ran (activatedGrains (silo (snd (getGrain keyedGrain ''cart-1'' emptyWorld))))"
proof -
  have h: "wf_world (snd (getGrain keyedGrain ''cart-1'' emptyWorld))"
    by (rule getGrain_wf [OF wf_emptyWorld])
  from C1_getGrain_replaces [OF h, of _ _ keyedGrain "''cart-1''"] h show ?thesis
    by (simp add: getGrain_def Let_def createGrainProxy_def activateGrain_def emptyWorld_def
        keyedGrain_def)
qed

text \<open>
  The claim as written fails: a second \<open>getGrain\<close> for an identity that already
  has a record does not return that record; it returns a new one and puts it in the
  existing record's place.
\<close>

theorem C1_second_getGrain_counterexample:
  "activatedGrains (silo (snd (getGrain keyedGrain ''cart-1'' emptyWorld))) ''cart-1''
       = Some (fst (getGrain keyedGrain ''cart-1'' emptyWorld))
   \<and> fst (getGrain keyedGrain ''cart-1'' (snd (getGrain keyedGrain ''cart-1'' emptyWorld)))
       \<noteq> fst (getGrain keyedGrain ''cart-1'' emptyWorld)
   \<and> activatedGrains (silo (snd (getGrain keyedGrain ''cart-1''
         (snd (getGrain keyedGrain ''cart-1'' emptyWorld))))) ''cart-1''
       = Some (fst (getGrain keyedGrain ''cart-1'' (snd (getGrain keyedGrain ''cart-1'' emptyWorld))))"
  by (simp add: getGrain_def Let_def createGrainProxy_def activateGrain_def emptyWorld_def
      keyedGrain_def)

section \<open>LifecycleObservable: facts\<close>










section \<open>Storage: facts\<close>

lemma storage_call_etag_mono: "stored_etag (st k) \<le> stored_etag (storage_call st c k)"
  by (cases c) (simp_all add: writeState_def clearState_def)

lemma storage_calls_etag_mono: "stored_etag (st k) \<le> stored_etag (storage_calls st cs k)"
proof (induction cs arbitrary: st)
  case Nil
  then show ?case by (simp add: storage_calls_def)
next
  case (Cons c cs)
  have "stored_etag (st k) \<le> stored_etag (storage_call st c k)"
    by (rule storage_call_etag_mono)
  also have "\<dots> \<le> stored_etag (storage_calls (storage_call st c) cs k)"
    by (rule Cons.IH)
  finally show ?case by (simp add: storage_calls_def)
qed

text \<open>
  Claim C2, on the storage contract and the bridge modelled from the specification. A
  successful \<open>writeState\<close> leaves the record with a strictly larger version, which
  is the storage's new etag for the slot, and the storage holding the written value. A
  \<open>writeState\<close> or \<open>clearState\<close> whose record version is not the storage's
  current etag answers \<open>ConflictError\<close> and leaves the storage as it was. Etags
  never decrease under any sequence of calls, so a stale etag stays stale.
\<close>

theorem C2_etag_conflict:
  "(\<forall>g'. snd (bridge_writeState st k g) = Inr g' \<longrightarrow>
       IGrainState.version g < IGrainState.version g'
       \<and> stored_etag (st k) < stored_etag (fst (bridge_writeState st k g) k)
       \<and> stored_etag (fst (bridge_writeState st k g) k) = IGrainState.version g'
       \<and> stored_value (fst (bridge_writeState st k g) k) = Some (IGrainState.state g))
   \<and> (IGrainState.version g \<noteq> stored_etag (st k) \<longrightarrow>
       bridge_writeState st k g = (st, Inl ConflictError)
       \<and> bridge_clearState st k g = (st, Inl ConflictError))
   \<and> stored_etag (st k) \<le> stored_etag (storage_calls st cs k)"
proof -
  have a: "\<forall>g'. snd (bridge_writeState st k g) = Inr g' \<longrightarrow>
       IGrainState.version g < IGrainState.version g'
       \<and> stored_etag (st k) < stored_etag (fst (bridge_writeState st k g) k)
       \<and> stored_etag (fst (bridge_writeState st k g) k) = IGrainState.version g'
       \<and> stored_value (fst (bridge_writeState st k g) k) = Some (IGrainState.state g)"
    by (auto simp: bridge_writeState_def writeState_def split: if_splits)
  have b: "IGrainState.version g \<noteq> stored_etag (st k) \<longrightarrow>
       bridge_writeState st k g = (st, Inl ConflictError)
       \<and> bridge_clearState st k g = (st, Inl ConflictError)"
    by (simp add: bridge_writeState_def bridge_clearState_def writeState_def clearState_def)
  from a b storage_calls_etag_mono [of st k cs] show ?thesis by blast
qed

text \<open>Two writers that read the same etag: the first write succeeds and moves the etag,
  the second is refused and the first writer's value stays.\<close>

theorem C2_etag_conflict_witness:
  "snd (bridge_writeState emptyStorage profileKey
         ((readState (0::nat) emptyStorage profileKey)\<lparr>IGrainState.state := 7\<rparr>))
     = Inr \<lparr>IGrainState.version = 1, IGrainState.state = 7, recordExists = True\<rparr>
   \<and> IGrainState.version ((readState (0::nat) emptyStorage profileKey)\<lparr>IGrainState.state := 9\<rparr>)
     \<noteq> stored_etag (fst (bridge_writeState emptyStorage profileKey
         ((readState (0::nat) emptyStorage profileKey)\<lparr>IGrainState.state := 7\<rparr>)) profileKey)
   \<and> snd (bridge_writeState
        (fst (bridge_writeState emptyStorage profileKey
          ((readState (0::nat) emptyStorage profileKey)\<lparr>IGrainState.state := 7\<rparr>)))
        profileKey ((readState (0::nat) emptyStorage profileKey)\<lparr>IGrainState.state := 9\<rparr>))
     = Inl ConflictError
   \<and> stored_value (fst (bridge_writeState
        (fst (bridge_writeState emptyStorage profileKey
          ((readState (0::nat) emptyStorage profileKey)\<lparr>IGrainState.state := 7\<rparr>)))
        profileKey ((readState (0::nat) emptyStorage profileKey)\<lparr>IGrainState.state := 9\<rparr>)) profileKey)
     = Some 7"
  using C2_etag_conflict [of emptyStorage profileKey
      "(readState (0::nat) emptyStorage profileKey)\<lparr>IGrainState.state := 7\<rparr>" "[]"]
    C2_etag_conflict [of "fst (bridge_writeState emptyStorage profileKey
          ((readState (0::nat) emptyStorage profileKey)\<lparr>IGrainState.state := 7\<rparr>))" profileKey
      "(readState (0::nat) emptyStorage profileKey)\<lparr>IGrainState.state := 9\<rparr>" "[]"]
  by (simp add: bridge_writeState_def writeState_def readState_def emptyStorage_def)

section \<open>PersistentStateFactory: facts\<close>

lemma stages_ascending: "First < SetupState \<and> SetupState < Activate \<and> Activate < Last"
  by (simp add: First_def SetupState_def Activate_def Last_def)

lemma find_js_instanceof_T:
  "find_js instanceof_T xs =
     (if xs = [] then Inr None else Inl (Failure ''ReferenceError: T is not defined''))"
  by (cases xs) (simp_all add: instanceof_T_def)

lemma getService_cases:
  "getService sp =
     (if services sp = [] then Inr JsNone else Inl (Failure ''ReferenceError: T is not defined''))"
  by (simp add: getService_def find_js_instanceof_T)

lemma create_named_branch:
  assumes "truthy_name (storageName config)"
  shows "create context config initial
       = Inl (Failure (''Missing provider exception: '' @ grainId context))
     \<longleftrightarrow> getServiceByName (activationServices context) (storageName config) = None"
  using assms by (simp add: create_def Let_def split: option.splits)

text \<open>Without a storage name \<open>create\<close> never raises the missing-provider error:
  with no service registered it returns a bridge bound to the \<open>None\<close> object,
  with any service registered \<open>getService\<close> throws.\<close>

lemma create_default_branch:
  assumes "\<not> truthy_name (storageName config)"
  shows "(services (activationServices context) = [] \<longrightarrow>
            (\<exists>b c. create context config initial = Inr (b, c) \<and> storageProvider b = JsNone))
     \<and> (services (activationServices context) \<noteq> [] \<longrightarrow>
            create context config initial = Inl (Failure ''ReferenceError: T is not defined''))
     \<and> create context config initial
           \<noteq> Inl (Failure (''Missing provider exception: '' @ grainId context))"
  using assms by (simp add: create_def Let_def getService_cases)


text \<open>
  Claim C7 at a configuration with no storage name, on a context with no service
  registered: no provider can be resolved, yet \<open>create\<close> raises nothing and
  returns a bridge bound to the \<open>None\<close> object that \<open>getService\<close>
  answered. The test \<open>!storageProvider\<close> is never true of an \<open>Option\<close>.
  On a context with a service registered (and still no default provider) the call
  throws, but the \<open>ReferenceError\<close> of \<open>getService\<close>, not the
  missing-provider error.
\<close>

theorem C7_no_default_provider_not_raised:
  "\<not> resolvable bareContext (PersistentStateAttribute ''profile'' None)
   \<and> (\<exists>c. create bareContext (PersistentStateAttribute ''profile'' None) (0::nat)
         = Inr (\<lparr>fullStateName = ''profile'', bridge_grainId = ''user/42'',
                  storageProvider = JsNone, initialState = 0\<rparr>, c))
   \<and> \<not> resolvable userContext (PersistentStateAttribute ''profile'' None)
   \<and> create userContext (PersistentStateAttribute ''profile'' None) (0::nat)
       = Inl (Failure ''ReferenceError: T is not defined'')"
  by (simp add: resolvable_def create_def Let_def getService_cases PersistentStateAttribute_def
      userContext_def namedOnly_def bareContext_def noServices_def)











section \<open>Collection: facts\<close>

text \<open>
  Claim C6, on \<open>delayDeactivation\<close> modelled from the specification and reached
  through \<open>Grain.delayDeactivation\<close> and \<open>GrainRuntime.delayDeactivation\<close> of the
  sources. With a runtime and a context the call reaches the context; a positive
  duration sets keep-alive-until to now + duration whatever it was before; the result
  does not depend on earlier calls (last write wins), so repeating the call with the
  same duration at the same clock reading changes nothing; a non-positive duration
  clears the override, and the activation is then collectible exactly under the normal
  policy.
\<close>

theorem C6_delayDeactivation:
  "Grain_delayDeactivation True now (Some a) current d = Inr (delayDeactivation now d a)
   \<and> keepAliveUntil (delayDeactivation now d a) = (if d \<le> 0 then None else Some (now + d))
   \<and> delayDeactivation now d (delayDeactivation now' d' a) = delayDeactivation now d a
   \<and> delayDeactivation now d (delayDeactivation now d a) = delayDeactivation now d a
   \<and> (d \<le> 0 \<longrightarrow> keepAliveUntil (delayDeactivation now d a) = None
        \<and> collectible t (delayDeactivation now d a) = idle_expired t a)"
  by (simp add: Grain_delayDeactivation_def GrainRuntime_delayDeactivation_def
      checkRuntimeContext_def delayDeactivation_def collectible_def idle_expired_def)

theorem C6_delayDeactivation_witness:
  "keepAliveUntil (delayDeactivation 1000 500 idleActivation) = Some 1500
   \<and> keepAliveUntil (delayDeactivation 1000 500 (delayDeactivation 1000 500 idleActivation)) = Some 1500
   \<and> (0::int) \<le> 0
   \<and> keepAliveUntil (delayDeactivation 1000 0 (delayDeactivation 1000 500 idleActivation)) = None
   \<and> collectible 1000 (delayDeactivation 1000 0 (delayDeactivation 1000 500 idleActivation))
   \<and> \<not> collectible 1000 (delayDeactivation 1000 500 idleActivation)"
  using C6_delayDeactivation [of 1000 idleActivation None 500 1000 500 1000]
    C6_delayDeactivation [of 1000 "delayDeactivation 1000 500 idleActivation" None 0 1000 500 1000]
  by (simp add: delayDeactivation_def collectible_def idle_expired_def idleActivation_def)

section \<open>Actor: facts\<close>

lemma turns_begun_simps [simp]:
  "turns_begun [] = 0"
  "turns_begun (TurnBegin m # tr) = Suc (turns_begun tr)"
  "turns_begun (Notified i s # tr) = turns_begun tr"
  "turns_begun (TurnEnd m # tr) = turns_begun tr"
  "turns_begun (TurnAborted m # tr) = turns_begun tr"
  "turns_begun (HandlerThrew m # tr) = turns_begun tr"
  "turns_begun (Warn w # tr) = turns_begun tr"
  "turns_begun (tr @ tr') = turns_begun tr + turns_begun tr'"
  by (simp_all add: turns_begun_def)

lemma turn_events_simps [simp]:
  "turn_events [] = []"
  "turn_events (TurnBegin m # tr) = TurnBegin m # turn_events tr"
  "turn_events (TurnEnd m # tr) = TurnEnd m # turn_events tr"
  "turn_events (TurnAborted m # tr) = TurnAborted m # turn_events tr"
  "turn_events (Notified i s # tr) = turn_events tr"
  "turn_events (HandlerThrew m # tr) = turn_events tr"
  "turn_events (Warn w # tr) = turn_events tr"
  "turn_events (tr @ tr') = turn_events tr @ turn_events tr'"
  by (simp_all add: turn_events_def)

lemma turn_events_notifications [simp]: "turn_events (notifications i s k) = []"
  by (induction k arbitrary: i) simp_all

lemma turns_begun_notifications [simp]: "turns_begun (notifications i s k) = 0"
  by (induction k arbitrary: i) simp_all

declare sendMessage.simps [simp del] processMessage.simps [simp del]


















text \<open>
  Claim C9. A message whose type \<open>isMessageTypeValid\<close> rejects leaves the
  actor as it was (state, history and subscribers), calls no subscriber, and the call
  returns normally; the only effect is the console warning.
\<close>

theorem C9_invalid_message_noop:
  assumes "\<not> isMessageTypeValid cls (type m)"
  shows "sendMessage n cls a m = (a, [Warn (type m)], None)"
  using assms by (simp add: sendMessage.simps)

theorem C9_invalid_message_noop_witness:
  "\<not> isMessageTypeValid counterClass (type msgUnknown)
   \<and> sendMessage 0 counterClass reentrantActor msgUnknown = (reentrantActor, [Warn ''zzz''], None)"
proof -
  have h: "\<not> isMessageTypeValid counterClass (type msgUnknown)"
    by (simp add: counterClass_def msgUnknown_def)
  from C9_invalid_message_noop [OF h, of 0 reentrantActor] h show ?thesis
    by (simp add: msgUnknown_def)
qed

end
